theory Spec2Isabelle
  imports Main "HOL-Library.Word" "HOL-Library.Signed_Division" "HOL-Library.Sublist"
begin

section \<open>Proxies and their statistics (package proxym, the file declaring Proxy)\<close>

text \<open>
  Go's \<open>uint\<close> is modelled at its width on 64-bit targets: addition wraps around.
  A \<open>time.Time\<close> is a reading of the clock, a natural number; \<open>time.Now()\<close> is an
  argument of the function that calls it. An \<open>*http.Response\<close> is \<open>None\<close> when nil;
  what a response holds is never read by this code.
\<close>

type_synonym uint = "64 word"
type_synonym Time = nat
type_synonym Response = nat

text \<open>
  Errors are values. \<open>New m\<close> is \<open>errors.New(m)\<close>; \<open>Errorf_w e m\<close> is
  \<open>fmt.Errorf("%w: m", e)\<close> and \<open>Errorf_ww a b\<close> is \<open>fmt.Errorf("%w: %w", a, b)\<close>.
\<close>

datatype error = New string | Errorf_w error string | Errorf_ww error error

definition ErrProxyNotAvailable :: error where
  "ErrProxyNotAvailable = New ''proxy not available''"

definition ErrUnsupportedRoundTripperImpl :: error where
  "ErrUnsupportedRoundTripperImpl = New ''unsupported round tripper implementation''"

definition ErrResourceNotFound :: error where
  "ErrResourceNotFound = New ''resource not found''"

definition ErrEmptyProxyList :: error where
  "ErrEmptyProxyList = New ''empty proxy list in proxy manager''"

definition ErrFailedSelectProxy :: error where
  "ErrFailedSelectProxy = New ''failed select proxy in select strategy''"

text \<open>\<open>errors.Is\<close>: the error itself or one it wraps is the target.\<close>

fun errors_Is :: "error \<Rightarrow> error \<Rightarrow> bool" where
  "errors_Is (New m) target = (New m = target)"
| "errors_Is (Errorf_w e m) target = (Errorf_w e m = target \<or> errors_Is e target)"
| "errors_Is (Errorf_ww a b) target =
     (Errorf_ww a b = target \<or> errors_Is a target \<or> errors_Is b target)"

record ProxyMetadata =
  country :: string
  priority :: nat
  expiresAt :: Time

record ProxyStats =
  totalRequests :: uint
  successCount :: uint
  errorCount :: uint
  stats_lastUsed :: Time

text \<open>
  A proxy owns its statistics and metadata for its lifetime (NewProxy creates them, no
  code reassigns them), so they are fields of the record. The URL is \<open>None\<close> for a
  direct connection.
\<close>

record Proxy =
  url :: "string option"
  stats :: ProxyStats
  meta :: ProxyMetadata
  isActive :: bool
  isDisabled :: bool

definition zeroStats :: ProxyStats where
  "zeroStats = \<lparr>totalRequests = 0, successCount = 0, errorCount = 0, stats_lastUsed = 0\<rparr>"

definition zeroMetadata :: ProxyMetadata where
  "zeroMetadata = \<lparr>country = [], priority = 0, expiresAt = 0\<rparr>"

definition NewProxy :: "string option \<Rightarrow> ProxyMetadata option \<Rightarrow> Proxy" where
  "NewProxy u m =
     \<lparr>url = u, stats = zeroStats,
      meta = (case m of None \<Rightarrow> zeroMetadata | Some m' \<Rightarrow> m'),
      isActive = False, isDisabled = False\<rparr>"

definition NewDirectConnection :: Proxy where
  "NewDirectConnection = NewProxy None None"

definition Disable :: "Proxy \<Rightarrow> Proxy" where
  "Disable p = p\<lparr>isDisabled := True\<rparr>"

definition Enable :: "Proxy \<Rightarrow> Proxy" where
  "Enable p = p\<lparr>isDisabled := False\<rparr>"

definition IsDisabled :: "Proxy \<Rightarrow> bool" where
  "IsDisabled p = isDisabled p"

definition activate :: "Proxy \<Rightarrow> Proxy" where
  "activate p = p\<lparr>isActive := True\<rparr>"

definition deactivate :: "Proxy \<Rightarrow> Proxy" where
  "deactivate p = p\<lparr>isActive := False\<rparr>"

definition IsActive :: "Proxy \<Rightarrow> bool" where
  "IsActive p = isActive p"

definition IsDirect :: "Proxy \<Rightarrow> bool" where
  "IsDirect p = (url p = None)"

definition TotalRequests :: "ProxyStats \<Rightarrow> uint" where
  "TotalRequests s = totalRequests s"

definition SuccessCount :: "ProxyStats \<Rightarrow> uint" where
  "SuccessCount s = successCount s"

definition ErrorCount :: "ProxyStats \<Rightarrow> uint" where
  "ErrorCount s = errorCount s"

text \<open>ProxyStats.Update: the clock reading \<open>now\<close> is what \<open>time.Now()\<close> returns.\<close>

definition ProxyStats_Update ::
  "ProxyStats \<Rightarrow> Response option \<Rightarrow> error option \<Rightarrow> Time \<Rightarrow> ProxyStats" where
  "ProxyStats_Update s response err now =
     (let s1 = s\<lparr>totalRequests := totalRequests s + 1\<rparr>;
          s2 = (if response \<noteq> None \<and> err = None
                then s1\<lparr>successCount := successCount s1 + 1\<rparr>
                else s1\<lparr>errorCount := errorCount s1 + 1\<rparr>)
      in s2\<lparr>stats_lastUsed := now\<rparr>)"

text \<open>Proxy.Update is shorthand for \<open>p.Stats().Update(response, err)\<close>.\<close>

definition Proxy_Update ::
  "Proxy \<Rightarrow> Response option \<Rightarrow> error option \<Rightarrow> Time \<Rightarrow> Proxy" where
  "Proxy_Update p response err now = p\<lparr>stats := ProxyStats_Update (stats p) response err now\<rparr>"

text \<open>A sequence of completed requests reported to one ProxyStats, oldest first.\<close>

type_synonym outcome = "Response option \<times> error option \<times> Time"

fun Updates :: "ProxyStats \<Rightarrow> outcome list \<Rightarrow> ProxyStats" where
  "Updates s [] = s"
| "Updates s ((response, err, now) # rest) = Updates (ProxyStats_Update s response err now) rest"

section \<open>Rotation strategies (package rotations)\<close>

text \<open>
  The implementations of the RotationStrategy interface in the repository.
  CompositeRotationLogicType is an int with two named values.
\<close>

datatype RotationStrategy =
    OnlyEnabledRotation
  | RoundRobinRotation
  | RequestLimitedRotation uint
  | ErrorThresholdRotation uint
  | CompositeRotation "RotationStrategy list" int

definition RotationLogicAND :: int where
  "RotationLogicAND = 0"

definition RotationLogicOR :: int where
  "RotationLogicOR = 1"

definition NewCompositeRotationStrategy :: "int \<Rightarrow> RotationStrategy list \<Rightarrow> RotationStrategy" where
  "NewCompositeRotationStrategy logic strategies = CompositeRotation strategies logic"

text \<open>
  ShouldRotate of each implementation; \<open>compositeLoop\<close> is the \<open>for\<close> loop of
  CompositeRotation.ShouldRotate over the remaining strategies, with the return that
  follows it.
\<close>

fun ShouldRotate :: "RotationStrategy \<Rightarrow> Proxy \<Rightarrow> bool"
  and compositeLoop :: "int \<Rightarrow> RotationStrategy list \<Rightarrow> Proxy \<Rightarrow> bool" where
  "ShouldRotate OnlyEnabledRotation proxy = IsDisabled proxy"
| "ShouldRotate RoundRobinRotation proxy = True"
| "ShouldRotate (RequestLimitedRotation limit) proxy = (TotalRequests (stats proxy) \<ge> limit)"
| "ShouldRotate (ErrorThresholdRotation threshold) proxy = (ErrorCount (stats proxy) \<ge> threshold)"
| "ShouldRotate (CompositeRotation strategies logic) proxy =
     (if length strategies = 0 then False else compositeLoop logic strategies proxy)"
| "compositeLoop logic [] proxy = (logic = RotationLogicAND)"
| "compositeLoop logic (strategy # rest) proxy =
     (let result = ShouldRotate strategy proxy in
      if logic = RotationLogicOR \<and> result then True
      else if logic = RotationLogicAND \<and> \<not> result then False
      else compositeLoop logic rest proxy)"

definition DefaultRotationStrategy :: RotationStrategy where
  "DefaultRotationStrategy =
     NewCompositeRotationStrategy RotationLogicOR [OnlyEnabledRotation, ErrorThresholdRotation 1]"

section \<open>Selection: providers, filters and select strategies (package selects)\<close>

text \<open>
  Proxies are shared by reference between pools, so they live in a heap: a pointer
  \<open>*Proxy\<close> is \<open>Some a\<close> for the proxy at address \<open>a\<close>, and \<open>None\<close> when nil.
  A function that can panic at run time returns an option, \<open>None\<close> for the panic.
\<close>

type_synonym ProxyPtr = "nat option"
type_synonym heap = "nat \<Rightarrow> Proxy"

datatype SelectFilter = RemoveActiveProxyFilter | RemoveDisabledFilter

text \<open>
  The loop of both Filter methods: \<open>skip\<close> is the test of the proxy that leaves it
  out of \<open>result\<close>. Calling a method of a nil proxy panics.
\<close>

fun filterLoop ::
  "(Proxy \<Rightarrow> bool) \<Rightarrow> heap \<Rightarrow> ProxyPtr list \<Rightarrow> ProxyPtr list \<Rightarrow> ProxyPtr list option" where
  "filterLoop skip h [] result = Some result"
| "filterLoop skip h (None # rest) result = None"
| "filterLoop skip h (Some a # rest) result =
     filterLoop skip h rest (if \<not> skip (h a) then result @ [Some a] else result)"

fun Filter :: "SelectFilter \<Rightarrow> heap \<Rightarrow> ProxyPtr list \<Rightarrow> ProxyPtr list option" where
  "Filter RemoveActiveProxyFilter h proxies = filterLoop IsActive h proxies []"
| "Filter RemoveDisabledFilter h proxies = filterLoop IsDisabled h proxies []"

text \<open>
  A provider is the owner of the strategy (the manager or the resource config that the
  option WithSelectStrategy or WithResourceSelectStrategy applied the factory to), or a
  FilteredSelectProvider around another provider. \<open>src\<close> is the copy of the owner's
  proxy list that the owner's GetProxies returns.
\<close>

datatype Provider = SourceProvider | FilteredSelectProvider Provider "SelectFilter list"

definition NewFilteredSelectProvider :: "Provider \<Rightarrow> SelectFilter list \<Rightarrow> Provider" where
  "NewFilteredSelectProvider sourceProvider filters = FilteredSelectProvider sourceProvider filters"

fun filtersLoop :: "heap \<Rightarrow> SelectFilter list \<Rightarrow> ProxyPtr list \<Rightarrow> ProxyPtr list option" where
  "filtersLoop h [] proxies = Some proxies"
| "filtersLoop h (flt # rest) proxies =
     (case Filter flt h proxies of
        None \<Rightarrow> None
      | Some proxies' \<Rightarrow> if length proxies' = 0 then Some proxies' else filtersLoop h rest proxies')"

fun Provider_GetProxies :: "Provider \<Rightarrow> heap \<Rightarrow> ProxyPtr list \<Rightarrow> ProxyPtr list option" where
  "Provider_GetProxies SourceProvider h src = Some src"
| "Provider_GetProxies (FilteredSelectProvider sourceProvider filters) h src =
     (case Provider_GetProxies sourceProvider h src of
        None \<Rightarrow> None
      | Some proxies \<Rightarrow> filtersLoop h filters proxies)"

text \<open>
  The implementations of the SelectStrategy interface. RoundRobinSelect carries its
  cursor, a Go \<open>int\<close>; the cursor stays below the length of a slice, so \<open>index + 1\<close>
  never overflows and the integers are unbounded here.
\<close>

datatype SelectStrategy = RandomSelect Provider | RoundRobinSelect Provider int

type_synonym SelectStrategyFactory = "Provider \<Rightarrow> SelectStrategy"

definition NewRandomSelect :: SelectStrategyFactory where
  "NewRandomSelect provider = RandomSelect provider"

definition NewRoundRobinSelect :: SelectStrategyFactory where
  "NewRoundRobinSelect provider = RoundRobinSelect provider (- 1)"

definition NewFilteredSelectFactory ::
  "SelectStrategyFactory \<Rightarrow> SelectFilter list \<Rightarrow> SelectStrategyFactory" where
  "NewFilteredSelectFactory selectFactory filters =
     (\<lambda>sourceProvider. selectFactory (NewFilteredSelectProvider sourceProvider filters))"

definition DefaultSelectStrategy :: SelectStrategyFactory where
  "DefaultSelectStrategy =
     NewFilteredSelectFactory NewRandomSelect [RemoveActiveProxyFilter, RemoveDisabledFilter]"

definition emptyProxies :: error where
  "emptyProxies = Errorf_w ErrFailedSelectProxy ''empty proxies from provider''"

text \<open>
  Select returns the pair of Go as a sum (\<open>Inl\<close> the error, \<open>Inr\<close> the proxy, which is
  nil when the chosen entry of the list is) and the strategy with its cursor updated.
  \<open>rnd\<close> is the random source: \<open>rand.IntN(n)\<close> is \<open>rnd mod n\<close>, any index below
  \<open>n\<close>. Go's \<open>%\<close> truncates (\<open>smod\<close>), and indexing outside the slice panics.
\<close>

fun Select ::
  "SelectStrategy \<Rightarrow> heap \<Rightarrow> ProxyPtr list \<Rightarrow> nat \<Rightarrow> ((error + ProxyPtr) \<times> SelectStrategy) option" where
  "Select (RandomSelect provider) h src rnd =
     (case Provider_GetProxies provider h src of
        None \<Rightarrow> None
      | Some proxies \<Rightarrow>
          if length proxies = 0 then Some (Inl emptyProxies, RandomSelect provider)
          else Some (Inr (proxies ! (rnd mod length proxies)), RandomSelect provider))"
| "Select (RoundRobinSelect provider index) h src rnd =
     (case Provider_GetProxies provider h src of
        None \<Rightarrow> None
      | Some proxies \<Rightarrow>
          if length proxies = 0 then Some (Inl emptyProxies, RoundRobinSelect provider index)
          else
            let index' = (index + 1) smod int (length proxies) in
            if 0 \<le> index' \<and> index' < int (length proxies)
            then Some (Inr (proxies ! nat index'), RoundRobinSelect provider index')
            else None)"

text \<open>
  Consecutive calls of Select on one strategy over an unchanged heap and source list, one
  random number per call: the results in call order and the strategy afterwards.
\<close>

fun SelectCalls ::
  "SelectStrategy \<Rightarrow> heap \<Rightarrow> ProxyPtr list \<Rightarrow> nat list \<Rightarrow> ((error + ProxyPtr) list \<times> SelectStrategy) option" where
  "SelectCalls s h src [] = Some ([], s)"
| "SelectCalls s h src (rnd # rnds) =
     (case Select s h src rnd of
        None \<Rightarrow> None
      | Some (r, s') \<Rightarrow>
          (case SelectCalls s' h src rnds of
             None \<Rightarrow> None
           | Some (rs, s'') \<Rightarrow> Some (r # rs, s'')))"

text \<open>
  The provider a strategy was made with, and the range of a cursor: NewRoundRobinSelect
  starts it at -1 and Select leaves it at an index of the list.
\<close>

fun providerOf :: "SelectStrategy \<Rightarrow> Provider" where
  "providerOf (RandomSelect provider) = provider"
| "providerOf (RoundRobinSelect provider index) = provider"

fun cursorValid :: "SelectStrategy \<Rightarrow> bool" where
  "cursorValid (RandomSelect provider) = True"
| "cursorValid (RoundRobinSelect provider index) = (- 1 \<le> index)"

section \<open>Resource configs and domain matching (resource.go)\<close>

text \<open>
  Strings are byte strings. The functions of package strings that the code calls:
  ToLower is given on the ASCII letters (bytes outside A-Z are left as they are, which
  is what Go does on ASCII input).
\<close>

definition HasPrefix :: "string \<Rightarrow> string \<Rightarrow> bool" where
  "HasPrefix s pre = (length s \<ge> length pre \<and> take (length pre) s = pre)"

definition HasSuffix :: "string \<Rightarrow> string \<Rightarrow> bool" where
  "HasSuffix s suf = (length s \<ge> length suf \<and> drop (length s - length suf) s = suf)"

definition TrimPrefix :: "string \<Rightarrow> string \<Rightarrow> string" where
  "TrimPrefix s pre = (if HasPrefix s pre then drop (length pre) s else s)"

definition Trim :: "string \<Rightarrow> string \<Rightarrow> string" where
  "Trim s cutset =
     rev (dropWhile (\<lambda>c. c \<in> set cutset) (rev (dropWhile (\<lambda>c. c \<in> set cutset) s)))"

definition toLowerByte :: "char \<Rightarrow> char" where
  "toLowerByte c =
     (let n = (of_char c :: nat) in if 65 \<le> n \<and> n \<le> 90 then char_of (n + 32) else c)"

definition ToLower :: "string \<Rightarrow> string" where
  "ToLower s = map toLowerByte s"

text \<open>
  \<open>url.Parse\<close> and \<open>URL.Hostname\<close> belong to Go's standard library, not to this
  repository: they are a parameter of the model. \<open>U s\<close> is \<open>None\<close> when
  \<open>url.Parse(s)\<close> returns an error, and \<open>Some host\<close> with \<open>host\<close> the value of
  \<open>u.Hostname()\<close> otherwise.
\<close>

type_synonym URLHostname = "string \<Rightarrow> string option"

record ResourceConfig =
  rc_proxies :: "ProxyPtr list"
  domain :: string
  notIgnoreSubdomains :: bool
  rc_selectStrategy :: "SelectStrategy option"
  rc_rotationStrategy :: "RotationStrategy option"

definition trimDomain :: "string \<Rightarrow> string" where
  "trimDomain d =
     (let domainReturn = TrimPrefix (TrimPrefix (TrimPrefix d ''http://'') ''https://'') ''www.''
      in Trim domainReturn ''/ '')"

definition getDomainFromURL :: "URLHostname \<Rightarrow> string \<Rightarrow> string" where
  "getDomainFromURL U urlStr =
     (case U urlStr of
        None \<Rightarrow> trimDomain urlStr
      | Some hostname \<Rightarrow> if hostname = [] then trimDomain urlStr else trimDomain hostname)"

definition normalizeDomain :: "URLHostname \<Rightarrow> string \<Rightarrow> string" where
  "normalizeDomain U d = (if d = [] then [] else ToLower (getDomainFromURL U d))"

definition CompareDomain :: "URLHostname \<Rightarrow> ResourceConfig \<Rightarrow> string \<Rightarrow> bool" where
  "CompareDomain U rc d =
     (let rcDomain = domain rc; normalized = normalizeDomain U d in
      if normalized = rcDomain then True
      else if \<not> notIgnoreSubdomains rc \<and> HasSuffix normalized (''.'' @ rcDomain) then True
      else False)"

definition ResourceConfig_AddProxies :: "ResourceConfig \<Rightarrow> ProxyPtr list \<Rightarrow> ResourceConfig" where
  "ResourceConfig_AddProxies rc ps = rc\<lparr>rc_proxies := rc_proxies rc @ ps\<rparr>"

text \<open>
  The options of NewResourceConfig and the constructor, which panics (\<open>None\<close>) when a
  strategy was not set. A select strategy is made by applying the factory to the
  resource config itself, the provider \<open>SourceProvider\<close>.
\<close>

datatype ResourceConfigOption =
    WithResourceProxies "ProxyPtr list"
  | WithResourceSelectStrategy SelectStrategyFactory
  | WithResourceRotationStrategy RotationStrategy
  | WithDomain string
  | WithIgnoreSubdomains bool

fun applyResourceOption :: "ResourceConfigOption \<Rightarrow> ResourceConfig \<Rightarrow> ResourceConfig" where
  "applyResourceOption (WithResourceProxies ps) rc = rc\<lparr>rc_proxies := ps\<rparr>"
| "applyResourceOption (WithResourceSelectStrategy factory) rc =
     rc\<lparr>rc_selectStrategy := Some (factory SourceProvider)\<rparr>"
| "applyResourceOption (WithResourceRotationStrategy strategy) rc =
     rc\<lparr>rc_rotationStrategy := Some strategy\<rparr>"
| "applyResourceOption (WithDomain d) rc = rc\<lparr>domain := d\<rparr>"
| "applyResourceOption (WithIgnoreSubdomains ignore) rc = rc\<lparr>notIgnoreSubdomains := \<not> ignore\<rparr>"

definition NewResourceConfig ::
  "URLHostname \<Rightarrow> bool \<Rightarrow> ResourceConfigOption list \<Rightarrow> ResourceConfig option" where
  "NewResourceConfig U normalizeFlag opts =
     (let rc0 = \<lparr>rc_proxies = [], domain = [], notIgnoreSubdomains = False,
                 rc_selectStrategy = None, rc_rotationStrategy = None\<rparr>;
          rc = foldl (\<lambda>rc opt. applyResourceOption opt rc) rc0 opts
      in if rc_rotationStrategy rc = None \<or> rc_selectStrategy rc = None then None
         else if normalizeFlag then Some (rc\<lparr>domain := normalizeDomain U (domain rc)\<rparr>)
         else Some rc)"

section \<open>The proxy manager (manager.go)\<close>

text \<open>
  The resources of a manager are held by value, in insertion order; the pointer that
  getResourceByDomain returns is the position of the resource in the list. A strategy
  field is \<open>None\<close> when the interface value is nil.
\<close>

record ProxyManagerImpl =
  proxies :: "ProxyPtr list"
  resources :: "ResourceConfig list"
  lastUsed :: ProxyPtr
  rotationStrategy :: "RotationStrategy option"
  selectStrategy :: "SelectStrategy option"

datatype ProxyManagerImplOption =
    WithProxies "ProxyPtr list"
  | WithResources "ResourceConfig list"
  | WithRotationStrategy RotationStrategy
  | WithSelectStrategy SelectStrategyFactory

fun applyOption :: "ProxyManagerImplOption \<Rightarrow> ProxyManagerImpl \<Rightarrow> ProxyManagerImpl" where
  "applyOption (WithProxies ps) pm = pm\<lparr>proxies := ps\<rparr>"
| "applyOption (WithResources rs) pm = pm\<lparr>resources := rs\<rparr>"
| "applyOption (WithRotationStrategy strategy) pm = pm\<lparr>rotationStrategy := Some strategy\<rparr>"
| "applyOption (WithSelectStrategy factory) pm = pm\<lparr>selectStrategy := Some (factory SourceProvider)\<rparr>"

definition NewProxyManager :: "ProxyManagerImplOption list \<Rightarrow> ProxyManagerImpl option" where
  "NewProxyManager opts =
     (let pm0 = \<lparr>proxies = [], resources = [], lastUsed = None,
                 rotationStrategy = None, selectStrategy = None\<rparr>;
          pm = foldl (\<lambda>pm opt. applyOption opt pm) pm0 opts
      in if rotationStrategy pm = None \<or> selectStrategy pm = None then None else Some pm)"

definition LastUsed :: "ProxyManagerImpl \<Rightarrow> ProxyPtr" where
  "LastUsed pm = lastUsed pm"

definition GetProxies :: "ProxyManagerImpl \<Rightarrow> ProxyPtr list" where
  "GetProxies pm = proxies pm"

definition ResourceConfig_GetProxies :: "ResourceConfig \<Rightarrow> ProxyPtr list" where
  "ResourceConfig_GetProxies rc = rc_proxies rc"

definition AddResources :: "ProxyManagerImpl \<Rightarrow> ResourceConfig list \<Rightarrow> ProxyManagerImpl" where
  "AddResources pm rs = pm\<lparr>resources := resources pm @ rs\<rparr>"

definition AddProxies :: "ProxyManagerImpl \<Rightarrow> ProxyPtr list \<Rightarrow> ProxyManagerImpl" where
  "AddProxies pm ps = pm\<lparr>proxies := proxies pm @ ps\<rparr>"

text \<open>The loop of getResourceByDomain from position \<open>i\<close> on: the first match wins.\<close>

fun resourceLoop :: "URLHostname \<Rightarrow> ResourceConfig list \<Rightarrow> string \<Rightarrow> nat \<Rightarrow> error + nat" where
  "resourceLoop U [] d i = Inl ErrResourceNotFound"
| "resourceLoop U (resource # rest) d i =
     (if CompareDomain U resource d then Inr i else resourceLoop U rest d (Suc i))"

definition getResourceByDomain :: "URLHostname \<Rightarrow> ProxyManagerImpl \<Rightarrow> string \<Rightarrow> error + nat" where
  "getResourceByDomain U pm d = resourceLoop U (resources pm) d 0"

definition AddResourceProxies ::
  "URLHostname \<Rightarrow> ProxyManagerImpl \<Rightarrow> string \<Rightarrow> ProxyPtr list \<Rightarrow> error option \<times> ProxyManagerImpl" where
  "AddResourceProxies U pm d ps =
     (case getResourceByDomain U pm d of
        Inl err \<Rightarrow> (Some err, pm)
      | Inr i \<Rightarrow>
          (None, pm\<lparr>resources := (resources pm)[i := ResourceConfig_AddProxies (resources pm ! i) ps]\<rparr>))"

definition proxyNotAvailable :: "error \<Rightarrow> error" where
  "proxyNotAvailable err = Errorf_ww ErrProxyNotAvailable err"

text \<open>
  The condition \<open>lastUsed != nil && !strategy.ShouldRotate(lastUsed)\<close> of both
  branches of GetNextProxy: the strategy is called only for a non-nil \<open>lastUsed\<close>, and
  calling a nil strategy panics.
\<close>

definition keepLastUsed :: "RotationStrategy option \<Rightarrow> heap \<Rightarrow> ProxyPtr \<Rightarrow> bool option" where
  "keepLastUsed strategy h prev =
     (case prev of
        None \<Rightarrow> Some False
      | Some l \<Rightarrow>
          (case strategy of None \<Rightarrow> None | Some r \<Rightarrow> Some (\<not> ShouldRotate r (h l))))"

text \<open>
  The end of GetNextProxy, from \<open>if current == nil\<close> on: the result, the manager
  and the heap.
\<close>

definition setCurrent ::
  "ProxyManagerImpl \<Rightarrow> heap \<Rightarrow> ProxyPtr \<Rightarrow> ProxyPtr \<Rightarrow> (error + ProxyPtr) \<times> ProxyManagerImpl \<times> heap" where
  "setCurrent pm h prev current =
     (case current of
        None \<Rightarrow> (Inl ErrProxyNotAvailable, pm, h)
      | Some c \<Rightarrow>
          (let h1 = (case prev of None \<Rightarrow> h | Some l \<Rightarrow> h(l := deactivate (h l)));
               h2 = h1(c := activate (h1 c))
           in (Inr current, pm\<lparr>lastUsed := current\<rparr>, h2)))"

text \<open>
  GetNextProxy returns Go's pair as a sum, with the manager and the heap after the call;
  \<open>None\<close> is a panic. \<open>rnd\<close> is the random number a RandomSelect would draw.
  The only error of getResourceByDomain is ErrResourceNotFound; with a nil error
  \<open>errors.Is\<close> is false and the resource branch runs.
\<close>

definition GetNextProxy ::
  "URLHostname \<Rightarrow> ProxyManagerImpl \<Rightarrow> heap \<Rightarrow> string \<Rightarrow> nat \<Rightarrow>
     ((error + ProxyPtr) \<times> ProxyManagerImpl \<times> heap) option" where
  "GetNextProxy U pm h d rnd =
     (if length (proxies pm) = 0 \<and> length (resources pm) = 0
      then Some (Inl (proxyNotAvailable ErrEmptyProxyList), pm, h)
      else
        (case getResourceByDomain U pm d of
           Inl err \<Rightarrow>
             if \<not> errors_Is err ErrResourceNotFound then Some (Inl (proxyNotAvailable err), pm, h)
             else
               (case keepLastUsed (rotationStrategy pm) h (LastUsed pm) of
                  None \<Rightarrow> None
                | Some True \<Rightarrow> Some (Inr (LastUsed pm), pm, h)
                | Some False \<Rightarrow>
                    (case selectStrategy pm of
                       None \<Rightarrow> None
                     | Some sel \<Rightarrow>
                         (case Select sel h (GetProxies pm) rnd of
                            None \<Rightarrow> None
                          | Some (Inl errSelect, sel') \<Rightarrow>
                              Some (Inl (proxyNotAvailable errSelect), pm\<lparr>selectStrategy := Some sel'\<rparr>, h)
                          | Some (Inr currentProxy, sel') \<Rightarrow>
                              Some (setCurrent (pm\<lparr>selectStrategy := Some sel'\<rparr>) h (LastUsed pm) currentProxy))))
         | Inr i \<Rightarrow>
             (let resource = resources pm ! i in
              case keepLastUsed (rc_rotationStrategy resource) h (LastUsed pm) of
                None \<Rightarrow> None
              | Some True \<Rightarrow> Some (Inr (LastUsed pm), pm, h)
              | Some False \<Rightarrow>
                  (case rc_selectStrategy resource of
                     None \<Rightarrow> None
                   | Some sel \<Rightarrow>
                       (case Select sel h (ResourceConfig_GetProxies resource) rnd of
                          None \<Rightarrow> None
                        | Some (Inl errSelect, sel') \<Rightarrow>
                            Some (Inl (proxyNotAvailable errSelect),
                                  pm\<lparr>resources := (resources pm)[i := resource\<lparr>rc_selectStrategy := Some sel'\<rparr>]\<rparr>, h)
                        | Some (Inr currentProxy, sel') \<Rightarrow>
                            Some (setCurrent
                                   (pm\<lparr>resources := (resources pm)[i := resource\<lparr>rc_selectStrategy := Some sel'\<rparr>]\<rparr>)
                                   h (LastUsed pm) currentProxy))))))"

text \<open>
  The rotation strategy that GetNextProxy consults for a domain: the matched resource's,
  else the manager's.
\<close>

definition applicableRotation :: "URLHostname \<Rightarrow> ProxyManagerImpl \<Rightarrow> string \<Rightarrow> RotationStrategy option" where
  "applicableRotation U pm d =
     (case getResourceByDomain U pm d of
        Inl err \<Rightarrow> rotationStrategy pm
      | Inr i \<Rightarrow> rc_rotationStrategy (resources pm ! i))"

text \<open>
  Sequential calls on one manager and on the proxies of the heap. A run stops at a
  panic.
\<close>

datatype call =
    Call_GetNextProxy string nat
  | Call_AddProxies "ProxyPtr list"
  | Call_AddResources "ResourceConfig list"
  | Call_AddResourceProxies string "ProxyPtr list"
  | Call_Disable nat
  | Call_Enable nat
  | Call_Update nat "Response option" "error option" Time

fun step :: "URLHostname \<Rightarrow> call \<Rightarrow> ProxyManagerImpl \<times> heap \<Rightarrow> (ProxyManagerImpl \<times> heap) option" where
  "step U (Call_GetNextProxy d rnd) (pm, h) =
     (case GetNextProxy U pm h d rnd of None \<Rightarrow> None | Some (r, pm', h') \<Rightarrow> Some (pm', h'))"
| "step U (Call_AddProxies ps) (pm, h) = Some (AddProxies pm ps, h)"
| "step U (Call_AddResources rs) (pm, h) = Some (AddResources pm rs, h)"
| "step U (Call_AddResourceProxies d ps) (pm, h) = Some (snd (AddResourceProxies U pm d ps), h)"
| "step U (Call_Disable a) (pm, h) = Some (pm, h(a := Disable (h a)))"
| "step U (Call_Enable a) (pm, h) = Some (pm, h(a := Enable (h a)))"
| "step U (Call_Update a response err now) (pm, h) = Some (pm, h(a := Proxy_Update (h a) response err now))"

fun run :: "URLHostname \<Rightarrow> call list \<Rightarrow> ProxyManagerImpl \<times> heap \<Rightarrow> (ProxyManagerImpl \<times> heap) option" where
  "run U [] st = Some st"
| "run U (c # cs) st = (case step U c st of None \<Rightarrow> None | Some st' \<Rightarrow> run U cs st')"

text \<open>The proxies of the global pool and of all resource pools.\<close>

definition poolProxies :: "ProxyManagerImpl \<Rightarrow> ProxyPtr list" where
  "poolProxies pm = proxies pm @ concat (map rc_proxies (resources pm))"

definition activeInPools :: "ProxyManagerImpl \<Rightarrow> heap \<Rightarrow> nat set" where
  "activeInPools pm h = {a. Some a \<in> set (poolProxies pm) \<and> IsActive (h a)}"

section \<open>Values for the examples\<close>

text \<open>
  What \<open>url.Parse\<close> and \<open>Hostname\<close> give on the strings of the examples: a URL with
  a scheme and \<open>//\<close> has the authority as its host, and a string with no scheme and
  no \<open>//\<close> in front is a relative path, whose host is empty.
\<close>

definition exampleHostnames :: URLHostname where
  "exampleHostnames =
     [''https://example.com/'' \<mapsto> ''example.com'', ''example.com'' \<mapsto> [],
      ''api.example.com'' \<mapsto> [], ''example.com.'' \<mapsto> [], ''x.com'' \<mapsto> []]"

definition exampleHeap :: heap where
  "exampleHeap = (\<lambda>a. NewDirectConnection)"

definition okOutcome :: outcome where
  "okOutcome = (Some 200, None, 0)"

section \<open>Statistics\<close>

lemma Update_fields:
  "totalRequests (ProxyStats_Update s response err now) = totalRequests s + 1"
  "successCount (ProxyStats_Update s response err now) =
     (if response \<noteq> None \<and> err = None then successCount s + 1 else successCount s)"
  "errorCount (ProxyStats_Update s response err now) =
     (if response \<noteq> None \<and> err = None then errorCount s else errorCount s + 1)"
  "stats_lastUsed (ProxyStats_Update s response err now) = now"
  by (simp_all add: ProxyStats_Update_def Let_def)

lemma Updates_snoc:
  "Updates s (us @ [(response, err, now)]) = ProxyStats_Update (Updates s us) response err now"
  by (induction s us rule: Updates.induct) simp_all

lemma Updates_sum:
  "totalRequests (Updates zeroStats us) =
     successCount (Updates zeroStats us) + errorCount (Updates zeroStats us)"
proof (induction us rule: rev_induct)
  case Nil
  then show ?case by (simp add: zeroStats_def)
next
  case (snoc u us)
  obtain response err now where u: "u = (response, err, now)" by (cases u)
  show ?case using snoc by (simp add: u Updates_snoc Update_fields)
qed

lemma uint_succ: "unat (x :: uint) < n \<Longrightarrow> n < 2 ^ 64 \<Longrightarrow> unat (x + 1) = unat x + 1"
proof -
  assume "unat x < n" and "n < 2 ^ 64"
  then have "unat x + unat (1 :: uint) < 2 ^ LENGTH(64)" by simp
  then show ?thesis by (simp add: unat_add_lem [THEN iffD1])
qed

text \<open>While fewer than \<open>2 ^ 64\<close> outcomes were reported, the counters count them.\<close>

lemma Updates_unat:
  "length us < 2 ^ 64 \<Longrightarrow>
     unat (totalRequests (Updates zeroStats us)) = length us
   \<and> unat (successCount (Updates zeroStats us)) + unat (errorCount (Updates zeroStats us)) = length us"
proof (induction us rule: rev_induct)
  case Nil
  then show ?case by (simp add: zeroStats_def)
next
  case (snoc u us)
  obtain response err now where u: "u = (response, err, now)" by (cases u)
  let ?s = "Updates zeroStats us"
  from snoc.prems have len: "length us + 1 < 2 ^ 64" by simp
  with snoc.IH have ih: "unat (totalRequests ?s) = length us"
    "unat (successCount ?s) + unat (errorCount ?s) = length us"
    by simp_all
  have "unat (totalRequests ?s) < length us + 1" "unat (successCount ?s) < length us + 1"
    "unat (errorCount ?s) < length us + 1"
    using ih by arith+
  then have "unat (totalRequests ?s + 1) = unat (totalRequests ?s) + 1"
    "unat (successCount ?s + 1) = unat (successCount ?s) + 1"
    "unat (errorCount ?s + 1) = unat (errorCount ?s) + 1"
    using len by (simp_all add: uint_succ)
  then show ?case using ih by (simp add: u Updates_snoc Update_fields)
qed

lemma Updates_replicate_ok:
  "totalRequests (Updates s (replicate n (Some r, None, t))) = totalRequests s + of_nat n"
  by (induction n arbitrary: s) (simp_all add: Update_fields)

text \<open>
  C3, as the code has it. After any sequence \<open>us\<close> of reported outcomes from the zero
  state, one more Update adds exactly 1 to totalRequests and to exactly one of
  successCount and errorCount, leaving the other as it was, and totalRequests equals
  successCount + errorCount afterwards; the additions are those of \<open>uint\<close>, which wrap
  around. While the update is not the \<open>2 ^ 64\<close>-th, no counter wraps: totalRequests
  is the number of updates made and no counter decreases.
\<close>

theorem ProxyStats_Update_counters:
  fixes us :: "outcome list"
  shows
  "totalRequests (ProxyStats_Update (Updates zeroStats us) response err now)
     = totalRequests (Updates zeroStats us) + 1
   \<and> ((successCount (ProxyStats_Update (Updates zeroStats us) response err now)
          = successCount (Updates zeroStats us) + 1
        \<and> errorCount (ProxyStats_Update (Updates zeroStats us) response err now)
          = errorCount (Updates zeroStats us))
      \<noteq>
       (errorCount (ProxyStats_Update (Updates zeroStats us) response err now)
          = errorCount (Updates zeroStats us) + 1
        \<and> successCount (ProxyStats_Update (Updates zeroStats us) response err now)
          = successCount (Updates zeroStats us)))
   \<and> totalRequests (ProxyStats_Update (Updates zeroStats us) response err now)
     = successCount (ProxyStats_Update (Updates zeroStats us) response err now)
       + errorCount (ProxyStats_Update (Updates zeroStats us) response err now)
   \<and> (length us + 1 < 2 ^ 64 \<longrightarrow>
        unat (totalRequests (ProxyStats_Update (Updates zeroStats us) response err now)) = length us + 1
      \<and> totalRequests (Updates zeroStats us)
          \<le> totalRequests (ProxyStats_Update (Updates zeroStats us) response err now)
      \<and> successCount (Updates zeroStats us)
          \<le> successCount (ProxyStats_Update (Updates zeroStats us) response err now)
      \<and> errorCount (Updates zeroStats us)
          \<le> errorCount (ProxyStats_Update (Updates zeroStats us) response err now))"
proof -
  let ?s = "Updates zeroStats us"
  let ?s' = "ProxyStats_Update ?s response err now"
  have s': "?s' = Updates zeroStats (us @ [(response, err, now)])"
    by (simp add: Updates_snoc)
  have one: "totalRequests ?s' = totalRequests ?s + 1"
    by (simp add: Update_fields)
  have exactly: "(successCount ?s' = successCount ?s + 1 \<and> errorCount ?s' = errorCount ?s)
      \<noteq> (errorCount ?s' = errorCount ?s + 1 \<and> successCount ?s' = successCount ?s)"
    by (simp add: Update_fields)
  have total: "totalRequests ?s' = successCount ?s' + errorCount ?s'"
    unfolding s' by (rule Updates_sum)
  have mono: "unat (totalRequests ?s') = length us + 1 \<and> totalRequests ?s \<le> totalRequests ?s'
      \<and> successCount ?s \<le> successCount ?s' \<and> errorCount ?s \<le> errorCount ?s'"
    if len: "length us + 1 < 2 ^ 64"
  proof -
    from len have "length us < 2 ^ 64" by simp
    from Updates_unat [OF this] have ih: "unat (totalRequests ?s) = length us"
      "unat (successCount ?s) + unat (errorCount ?s) = length us"
      by simp_all
    have "unat (totalRequests ?s) < length us + 1" "unat (successCount ?s) < length us + 1"
      "unat (errorCount ?s) < length us + 1"
      using ih by arith+
    then have inc: "unat (totalRequests ?s + 1) = unat (totalRequests ?s) + 1"
      "unat (successCount ?s + 1) = unat (successCount ?s) + 1"
      "unat (errorCount ?s + 1) = unat (errorCount ?s) + 1"
      using len by (simp_all add: uint_succ)
    show ?thesis using ih inc by (simp add: Update_fields word_le_nat_alt)
  qed
  from one exactly total mono show ?thesis by blast
qed

theorem ProxyStats_Update_counters_witness:
  "length [okOutcome, (None, None, 1)] + 1 < (2 :: nat) ^ 64
   \<and> totalRequests (ProxyStats_Update (Updates zeroStats [okOutcome, (None, None, 1)]) (Some 200) None 2) = 3
   \<and> successCount (ProxyStats_Update (Updates zeroStats [okOutcome, (None, None, 1)]) (Some 200) None 2) = 2
   \<and> errorCount (ProxyStats_Update (Updates zeroStats [okOutcome, (None, None, 1)]) (Some 200) None 2) = 1
   \<and> totalRequests (Updates zeroStats [okOutcome, (None, None, 1)])
       \<le> totalRequests (ProxyStats_Update (Updates zeroStats [okOutcome, (None, None, 1)]) (Some 200) None 2)"
  using ProxyStats_Update_counters [of "[okOutcome, (None, None, 1)]" "Some 200" None 2]
  by (simp add: okOutcome_def zeroStats_def Update_fields)

text \<open>
  C3 as stated fails where a counter wraps: after \<open>2 ^ 64 - 1\<close> successful outcomes
  totalRequests and successCount hold the largest \<open>uint\<close>, and the next Update takes
  both to 0.
\<close>

theorem ProxyStats_Update_wraps:
  "totalRequests (Updates zeroStats (replicate (2 ^ 64 - 1) okOutcome)) = 18446744073709551615
   \<and> totalRequests (ProxyStats_Update (Updates zeroStats (replicate (2 ^ 64 - 1) okOutcome)) (Some 200) None 0) = 0
   \<and> totalRequests (ProxyStats_Update (Updates zeroStats (replicate (2 ^ 64 - 1) okOutcome)) (Some 200) None 0)
       < totalRequests (Updates zeroStats (replicate (2 ^ 64 - 1) okOutcome))"
  by (simp add: okOutcome_def Updates_replicate_ok Update_fields zeroStats_def)

text \<open>
  C9. An Update (of the statistics, or through Proxy.Update) adds 1 to the success
  counter exactly when the response is non-nil and the error is nil, and adds 1 to the
  error counter in every other case: a nil response with a nil error and a non-nil
  response with a non-nil error both count as errors.
\<close>

theorem Update_success_iff:
  "(successCount (ProxyStats_Update s response err now) = successCount s + 1
      \<longleftrightarrow> response \<noteq> None \<and> err = None)
   \<and> (errorCount (ProxyStats_Update s response err now) = errorCount s + 1
      \<longleftrightarrow> \<not> (response \<noteq> None \<and> err = None))
   \<and> (successCount (ProxyStats_Update s response err now) = successCount s
      \<longleftrightarrow> \<not> (response \<noteq> None \<and> err = None))
   \<and> (errorCount (ProxyStats_Update s response err now) = errorCount s
      \<longleftrightarrow> response \<noteq> None \<and> err = None)
   \<and> errorCount (ProxyStats_Update s None None now) = errorCount s + 1
   \<and> successCount (ProxyStats_Update s None None now) = successCount s
   \<and> errorCount (ProxyStats_Update s (Some r) (Some e) now) = errorCount s + 1
   \<and> successCount (ProxyStats_Update s (Some r) (Some e) now) = successCount s
   \<and> stats (Proxy_Update p response err now) = ProxyStats_Update (stats p) response err now"
  by (simp add: Update_fields Proxy_Update_def)

theorem Update_success_iff_witness:
  "successCount (stats (Proxy_Update NewDirectConnection (Some 200) None 7)) = 1
   \<and> errorCount (stats (Proxy_Update NewDirectConnection (Some 200) None 7)) = 0
   \<and> errorCount (stats (Proxy_Update NewDirectConnection None None 7)) = 1
   \<and> successCount (stats (Proxy_Update NewDirectConnection None None 7)) = 0
   \<and> errorCount (stats (Proxy_Update NewDirectConnection (Some 500) (Some (New ''timeout'')) 7)) = 1
   \<and> successCount (stats (Proxy_Update NewDirectConnection (Some 500) (Some (New ''timeout'')) 7)) = 0"
  using Update_success_iff [of zeroStats "Some 200" None 7 200 "New ''timeout''" NewDirectConnection]
    Update_success_iff [of zeroStats None None 7 200 "New ''timeout''" NewDirectConnection]
    Update_success_iff [of zeroStats "Some 500" "Some (New ''timeout'')" 7 500 "New ''timeout''" NewDirectConnection]
  by (simp add: NewDirectConnection_def NewProxy_def zeroStats_def Update_fields)

section \<open>Rotation\<close>

text \<open>
  C4. A CompositeRotation over two strategies is their disjunction under OR and their
  conjunction under AND, and one with no strategies never rotates, whatever its logic.
\<close>

theorem CompositeRotation_two:
  "ShouldRotate (NewCompositeRotationStrategy RotationLogicOR [A, B]) p
     = (ShouldRotate A p \<or> ShouldRotate B p)
   \<and> ShouldRotate (NewCompositeRotationStrategy RotationLogicAND [A, B]) p
     = (ShouldRotate A p \<and> ShouldRotate B p)
   \<and> ShouldRotate (NewCompositeRotationStrategy logic []) p = False"
  by (auto simp: NewCompositeRotationStrategy_def RotationLogicOR_def RotationLogicAND_def Let_def)

theorem CompositeRotation_two_witness:
  "ShouldRotate (NewCompositeRotationStrategy RotationLogicOR [OnlyEnabledRotation, RoundRobinRotation])
     NewDirectConnection
   \<and> \<not> ShouldRotate (NewCompositeRotationStrategy RotationLogicAND [OnlyEnabledRotation, RoundRobinRotation])
     NewDirectConnection
   \<and> \<not> ShouldRotate (NewCompositeRotationStrategy RotationLogicAND []) NewDirectConnection
   \<and> \<not> ShouldRotate (NewCompositeRotationStrategy RotationLogicOR []) NewDirectConnection"
  using CompositeRotation_two [of OnlyEnabledRotation RoundRobinRotation NewDirectConnection RotationLogicAND]
    CompositeRotation_two [of OnlyEnabledRotation RoundRobinRotation NewDirectConnection RotationLogicOR]
  by (simp add: NewDirectConnection_def NewProxy_def IsDisabled_def)

section \<open>Selection\<close>

lemma smod_nonneg: "0 \<le> a \<Longrightarrow> 0 < b \<Longrightarrow> (a :: int) smod b = a mod b"
  by (simp add: signed_modulo_int_def sgn_if)

lemma rr_index:
  assumes "- 1 \<le> index" and "ps \<noteq> []"
  shows "0 \<le> (index + 1) smod int (length ps)"
    and "(index + 1) smod int (length ps) < int (length ps)"
    and "nat ((index + 1) smod int (length ps)) = nat (index + 1) mod length ps"
  using assms by (simp_all add: smod_nonneg nat_mod_distrib)

lemma cursorValid_New: "cursorValid (NewRoundRobinSelect provider) \<and> cursorValid (NewRandomSelect provider)"
  by (simp add: NewRoundRobinSelect_def NewRandomSelect_def)

text \<open>
  Select returns, with a valid cursor, whenever the provider gives its list; an empty
  list leaves the strategy as it was.
\<close>

lemma Select_total:
  assumes "Provider_GetProxies (providerOf s) h src = Some ps" and "cursorValid s"
  shows "\<exists>r s'. Select s h src rnd = Some (r, s') \<and> cursorValid s' \<and> providerOf s' = providerOf s
     \<and> (if ps = [] then r = Inl emptyProxies \<and> s' = s else \<exists>p \<in> set ps. r = Inr p)"
proof (cases s)
  case (RandomSelect provider)
  then show ?thesis using assms by simp
next
  case (RoundRobinSelect provider index)
  show ?thesis
  proof (cases "ps = []")
    case True
    then show ?thesis using assms RoundRobinSelect by simp
  next
    case False
    with assms RoundRobinSelect have i: "- 1 \<le> index" by simp
    show ?thesis using assms RoundRobinSelect False rr_index [OF i False]
      by (simp add: Let_def)
  qed
qed

lemma SelectCalls_RoundRobin:
  assumes "P \<noteq> []" and "- 1 \<le> index"
  shows "\<exists>s'. SelectCalls (RoundRobinSelect SourceProvider index) h P rnds =
     Some (map (\<lambda>i. Inr (P ! ((nat (index + 1) + i) mod length P))) [0..<length rnds], s')"
  using assms(2)
proof (induction rnds arbitrary: index)
  case Nil
  then show ?case by simp
next
  case (Cons rnd rnds)
  let ?j = "(index + 1) smod int (length P)"
  note ix = rr_index [OF Cons.prems assms(1)]
  have sel: "Select (RoundRobinSelect SourceProvider index) h P rnd
    = Some (Inr (P ! (nat (index + 1) mod length P)), RoundRobinSelect SourceProvider ?j)"
    using assms(1) ix by (simp add: Let_def)
  from Cons.IH [of ?j] ix obtain s' where
    rest: "SelectCalls (RoundRobinSelect SourceProvider ?j) h P rnds =
     Some (map (\<lambda>i. Inr (P ! ((nat (?j + 1) + i) mod length P))) [0..<length rnds], s')"
    by auto
  have shift: "(nat (?j + 1) + i) mod length P = (nat (index + 1) + Suc i) mod length P" for i
  proof -
    have "nat (?j + 1) = Suc (nat ?j)" using ix(1) by simp
    then have "(nat (?j + 1) + i) mod length P = (nat (index + 1) mod length P + Suc i) mod length P"
      using ix(3) by simp
    also have "\<dots> = (nat (index + 1) + Suc i) mod length P"
      by (rule mod_add_left_eq)
    finally show ?thesis .
  qed
  have "map (\<lambda>i. Inr (P ! ((nat (index + 1) + i) mod length P)) :: error + ProxyPtr) [0..<length (rnd # rnds)]
     = Inr (P ! (nat (index + 1) mod length P))
       # map (\<lambda>i. Inr (P ! ((nat (?j + 1) + i) mod length P))) [0..<length rnds]"
    by (simp add: upt_conv_Cons map_Suc_upt [symmetric] shift del: upt_Suc)
  then show ?case using sel rest by simp
qed

text \<open>
  C5. Over a provider that is the owner itself, with a pool \<open>P\<close> of \<open>n \<ge> 1\<close>
  proxies that does not change, any number of consecutive calls of Select on a new
  RoundRobinSelect all return with a nil error, and call \<open>i + 1\<close> returns
  \<open>P[i mod n]\<close>: the first call returns \<open>P[0]\<close>, the first \<open>n\<close> calls return the
  pool in its order, and call \<open>i + n + 1\<close> returns what call \<open>i + 1\<close> did.
\<close>

theorem RoundRobinSelect_order:
  assumes "P \<noteq> []"
  shows "(\<exists>s'. SelectCalls (NewRoundRobinSelect SourceProvider) h P rnds =
            Some (map (\<lambda>i. Inr (P ! (i mod length P))) [0..<length rnds], s'))
       \<and> map (\<lambda>i. Inr (P ! (i mod length P)) :: error + ProxyPtr) [0..<length P] = map Inr P
       \<and> P ! ((i + length P) mod length P) = P ! (i mod length P)"
proof -
  have "\<exists>s'. SelectCalls (NewRoundRobinSelect SourceProvider) h P rnds =
            Some (map (\<lambda>i. Inr (P ! (i mod length P))) [0..<length rnds], s')"
    using SelectCalls_RoundRobin [OF assms, of "- 1" h rnds] by (simp add: NewRoundRobinSelect_def)
  moreover have "map (\<lambda>i. Inr (P ! (i mod length P)) :: error + ProxyPtr) [0..<length P] = map Inr P"
    by (rule nth_equalityI) simp_all
  ultimately show ?thesis by simp
qed

theorem RoundRobinSelect_order_witness:
  "[Some 4, Some 5, Some 6] \<noteq> ([] :: ProxyPtr list)
   \<and> map fst (the (SelectCalls (NewRoundRobinSelect SourceProvider) exampleHeap
              [Some 4, Some 5, Some 6] [0, 0, 0, 0, 0]) # [])
     = [[Inr (Some 4), Inr (Some 5), Inr (Some 6), Inr (Some 4), Inr (Some 5)]]"
proof -
  have ne: "[Some 4, Some 5, Some 6] \<noteq> ([] :: ProxyPtr list)" by simp
  have up: "[0..<5] = [0, 1, 2, 3, 4]" by (simp add: upt_rec)
  from RoundRobinSelect_order [OF ne, of exampleHeap "[0, 0, 0, 0, 0]" 0] up
  show ?thesis by auto
qed

text \<open>
  C6. When the provider hands its (filtered) list to a RandomSelect or to a
  RoundRobinSelect whose cursor is in range, Select returns: with the error that wraps
  ErrFailedSelectProxy and no proxy exactly when the list is empty, and with an entry of
  the list and a nil error when it is not.
\<close>

theorem Select_error_iff_empty:
  assumes "Provider_GetProxies (providerOf s) h src = Some ps" and "cursorValid s"
  shows "\<exists>r s'. Select s h src rnd = Some (r, s')
     \<and> ((\<exists>e. r = Inl e) \<longleftrightarrow> ps = [])
     \<and> (if ps = [] then r = Inl emptyProxies else \<exists>p \<in> set ps. r = Inr p)
     \<and> errors_Is emptyProxies ErrFailedSelectProxy"
proof -
  from Select_total [OF assms, of rnd] obtain r s' where
    sel: "Select s h src rnd = Some (r, s')"
    and r: "if ps = [] then r = Inl emptyProxies \<and> s' = s else \<exists>p \<in> set ps. r = Inr p"
    by blast
  have "(\<exists>e. r = Inl e) \<longleftrightarrow> ps = []"
    using r by (auto split: if_splits)
  moreover have "errors_Is emptyProxies ErrFailedSelectProxy"
    by (simp add: emptyProxies_def ErrFailedSelectProxy_def)
  ultimately show ?thesis using sel r by (auto split: if_splits)
qed

theorem Select_error_iff_empty_witness:
  "Provider_GetProxies (providerOf (DefaultSelectStrategy SourceProvider))
       (exampleHeap(4 := Disable NewDirectConnection)) [Some 4] = Some []
   \<and> cursorValid (DefaultSelectStrategy SourceProvider)
   \<and> map fst (the (Select (DefaultSelectStrategy SourceProvider)
              (exampleHeap(4 := Disable NewDirectConnection)) [Some 4] 9) # [])
     = [Inl emptyProxies]
   \<and> Provider_GetProxies (providerOf (NewRoundRobinSelect SourceProvider)) exampleHeap [Some 4, Some 5]
     = Some [Some 4, Some 5]
   \<and> cursorValid (NewRoundRobinSelect SourceProvider)
   \<and> map fst (the (Select (NewRoundRobinSelect SourceProvider) exampleHeap [Some 4, Some 5] 9) # [])
     = [Inr (Some 4)]"
proof -
  let ?h = "exampleHeap(4 := Disable NewDirectConnection)"
  have a: "Provider_GetProxies (providerOf (DefaultSelectStrategy SourceProvider)) ?h [Some 4] = Some []"
    by (simp add: DefaultSelectStrategy_def NewFilteredSelectFactory_def NewRandomSelect_def
        NewFilteredSelectProvider_def exampleHeap_def NewDirectConnection_def NewProxy_def
        Disable_def IsActive_def IsDisabled_def)
  have b: "cursorValid (DefaultSelectStrategy SourceProvider)"
    by (simp add: DefaultSelectStrategy_def NewFilteredSelectFactory_def NewRandomSelect_def)
  have c: "Provider_GetProxies (providerOf (NewRoundRobinSelect SourceProvider)) exampleHeap [Some 4, Some 5]
     = Some [Some 4, Some 5]"
    by (simp add: NewRoundRobinSelect_def)
  have d: "cursorValid (NewRoundRobinSelect SourceProvider)"
    by (simp add: NewRoundRobinSelect_def)
  have e: "Select (NewRoundRobinSelect SourceProvider) exampleHeap [Some 4, Some 5] 9
     = Some (Inr (Some 4), RoundRobinSelect SourceProvider 0)"
    by (simp add: NewRoundRobinSelect_def signed_modulo_int_def)
  from Select_error_iff_empty [OF a b, of 9] Select_error_iff_empty [OF c d, of 9] a b c d e
  show ?thesis by auto
qed

section \<open>Domain matching\<close>

lemma trimDomain_example: "trimDomain ''example.com'' = ''example.com''"
  by (simp add: trimDomain_def TrimPrefix_def HasPrefix_def Trim_def)

lemma trimDomain_api_example: "trimDomain ''api.example.com'' = ''api.example.com''"
  by (simp add: trimDomain_def TrimPrefix_def HasPrefix_def Trim_def)

lemma ToLower_example: "ToLower ''example.com'' = ''example.com''"
  by (simp add: ToLower_def toLowerByte_def)

lemma ToLower_api_example: "ToLower ''api.example.com'' = ''api.example.com''"
  by (simp add: ToLower_def toLowerByte_def)

text \<open>A resource config made without WithIgnoreSubdomains includes subdomains.\<close>

lemma NewResourceConfig_example:
  assumes "U ''example.com'' = Some []"
  shows "NewResourceConfig U True
           [WithDomain ''example.com'', WithResourceRotationStrategy r, WithResourceSelectStrategy f]
         = Some \<lparr>rc_proxies = [], domain = ''example.com'', notIgnoreSubdomains = False,
              rc_selectStrategy = Some (f SourceProvider), rc_rotationStrategy = Some r\<rparr>"
  using assms
  by (simp add: NewResourceConfig_def normalizeDomain_def getDomainFromURL_def
      trimDomain_example ToLower_example)

text \<open>
  C7. Let \<open>url.Parse\<close> find no host in "example.com" and in "api.example.com" and
  the host "example.com" in "https://example.com/", as Go's does. A resource config
  with the domain "example.com" matches "example.com" and "https://example.com/"; it
  matches "api.example.com" when subdomains are included and not when they are excluded.
\<close>

theorem CompareDomain_example:
  assumes "U ''example.com'' = Some []" and "U ''api.example.com'' = Some []"
    and "U ''https://example.com/'' = Some ''example.com''"
    and "domain rc = ''example.com''"
  shows "CompareDomain U rc ''example.com''
    \<and> CompareDomain U rc ''https://example.com/''
    \<and> (CompareDomain U rc ''api.example.com'' \<longleftrightarrow> \<not> notIgnoreSubdomains rc)"
  using assms
  by (simp add: CompareDomain_def normalizeDomain_def getDomainFromURL_def trimDomain_example
      trimDomain_api_example ToLower_example ToLower_api_example HasSuffix_def)

theorem CompareDomain_example_witness:
  "exampleHostnames ''example.com'' = Some []
   \<and> exampleHostnames ''api.example.com'' = Some []
   \<and> exampleHostnames ''https://example.com/'' = Some ''example.com''
   \<and> map domain
       [the (NewResourceConfig exampleHostnames True
          [WithDomain ''example.com'', WithResourceRotationStrategy DefaultRotationStrategy,
           WithResourceSelectStrategy DefaultSelectStrategy]),
        the (NewResourceConfig exampleHostnames True
          [WithDomain ''example.com'', WithIgnoreSubdomains False,
           WithResourceRotationStrategy DefaultRotationStrategy,
           WithResourceSelectStrategy DefaultSelectStrategy])]
     = [''example.com'', ''example.com'']
   \<and> CompareDomain exampleHostnames
        (the (NewResourceConfig exampleHostnames True
          [WithDomain ''example.com'', WithResourceRotationStrategy DefaultRotationStrategy,
           WithResourceSelectStrategy DefaultSelectStrategy])) ''example.com''
   \<and> CompareDomain exampleHostnames
        (the (NewResourceConfig exampleHostnames True
          [WithDomain ''example.com'', WithResourceRotationStrategy DefaultRotationStrategy,
           WithResourceSelectStrategy DefaultSelectStrategy])) ''api.example.com''
   \<and> CompareDomain exampleHostnames
        (the (NewResourceConfig exampleHostnames True
          [WithDomain ''example.com'', WithResourceRotationStrategy DefaultRotationStrategy,
           WithResourceSelectStrategy DefaultSelectStrategy])) ''https://example.com/''
   \<and> CompareDomain exampleHostnames
        (the (NewResourceConfig exampleHostnames True
          [WithDomain ''example.com'', WithIgnoreSubdomains False,
           WithResourceRotationStrategy DefaultRotationStrategy,
           WithResourceSelectStrategy DefaultSelectStrategy])) ''example.com''
   \<and> \<not> CompareDomain exampleHostnames
        (the (NewResourceConfig exampleHostnames True
          [WithDomain ''example.com'', WithIgnoreSubdomains False,
           WithResourceRotationStrategy DefaultRotationStrategy,
           WithResourceSelectStrategy DefaultSelectStrategy])) ''api.example.com''"
proof -
  let ?incl = "the (NewResourceConfig exampleHostnames True
          [WithDomain ''example.com'', WithResourceRotationStrategy DefaultRotationStrategy,
           WithResourceSelectStrategy DefaultSelectStrategy])"
  let ?excl = "the (NewResourceConfig exampleHostnames True
          [WithDomain ''example.com'', WithIgnoreSubdomains False,
           WithResourceRotationStrategy DefaultRotationStrategy,
           WithResourceSelectStrategy DefaultSelectStrategy])"
  have u: "exampleHostnames ''example.com'' = Some []"
    "exampleHostnames ''api.example.com'' = Some []"
    "exampleHostnames ''https://example.com/'' = Some ''example.com''"
    by (simp_all add: exampleHostnames_def)
  have incl: "domain ?incl = ''example.com''" "\<not> notIgnoreSubdomains ?incl"
    by (simp_all add: NewResourceConfig_def normalizeDomain_def getDomainFromURL_def u
        trimDomain_example ToLower_example)
  have excl: "domain ?excl = ''example.com''" "notIgnoreSubdomains ?excl"
    by (simp_all add: NewResourceConfig_def normalizeDomain_def getDomainFromURL_def u
        trimDomain_example ToLower_example)
  from CompareDomain_example [OF u incl(1)] CompareDomain_example [OF u excl(1)] u incl excl
  show ?thesis by simp
qed

text \<open>
  C8, as the code has it. The empty string normalizes to the empty string. A resource
  config whose domain is empty matches a candidate exactly when the candidate normalizes
  to the empty string (the exact match) or, with subdomains included, normalizes to a
  string that ends in a dot (the suffix rule, whose suffix is then "."); with
  subdomains excluded it matches by the exact match only.
\<close>

theorem CompareDomain_empty_domain:
  "normalizeDomain U [] = []
   \<and> (domain rc = [] \<longrightarrow>
        (CompareDomain U rc d \<longleftrightarrow>
           normalizeDomain U d = []
           \<or> (\<not> notIgnoreSubdomains rc \<and> normalizeDomain U d \<noteq> []
               \<and> HasSuffix (normalizeDomain U d) ''.'')))"
  by (auto simp: CompareDomain_def normalizeDomain_def Let_def)

theorem CompareDomain_empty_domain_witness:
  "domain \<lparr>rc_proxies = [], domain = [], notIgnoreSubdomains = True,
          rc_selectStrategy = None, rc_rotationStrategy = None\<rparr> = []
   \<and> CompareDomain exampleHostnames
        \<lparr>rc_proxies = [], domain = [], notIgnoreSubdomains = True,
          rc_selectStrategy = None, rc_rotationStrategy = None\<rparr> []
   \<and> \<not> CompareDomain exampleHostnames
        \<lparr>rc_proxies = [], domain = [], notIgnoreSubdomains = True,
          rc_selectStrategy = None, rc_rotationStrategy = None\<rparr> ''example.com.''
   \<and> \<not> CompareDomain exampleHostnames
        \<lparr>rc_proxies = [], domain = [], notIgnoreSubdomains = False,
          rc_selectStrategy = None, rc_rotationStrategy = None\<rparr> ''example.com''"
proof -
  have n: "normalizeDomain exampleHostnames ''example.com.'' = ''example.com.''"
    "normalizeDomain exampleHostnames ''example.com'' = ''example.com''"
    by (simp_all add: normalizeDomain_def getDomainFromURL_def exampleHostnames_def
        trimDomain_def TrimPrefix_def HasPrefix_def Trim_def ToLower_def toLowerByte_def)
  show ?thesis
    using CompareDomain_empty_domain [of exampleHostnames
        "\<lparr>rc_proxies = [], domain = [], notIgnoreSubdomains = True,
          rc_selectStrategy = None, rc_rotationStrategy = None\<rparr>" "[]"]
      CompareDomain_empty_domain [of exampleHostnames
        "\<lparr>rc_proxies = [], domain = [], notIgnoreSubdomains = True,
          rc_selectStrategy = None, rc_rotationStrategy = None\<rparr>" "''example.com.''"]
      CompareDomain_empty_domain [of exampleHostnames
        "\<lparr>rc_proxies = [], domain = [], notIgnoreSubdomains = False,
          rc_selectStrategy = None, rc_rotationStrategy = None\<rparr>" "''example.com''"]
      n
    by (simp add: HasSuffix_def)
qed

text \<open>
  C8 as stated fails: a resource config made with no domain, subdomains included as by
  default, matches "example.com.", which normalizes to itself and not to the empty
  string. \<open>url.Parse\<close> finds no host in "example.com.", a relative path.
\<close>

theorem CompareDomain_empty_domain_suffix:
  "exampleHostnames ''example.com.'' = Some []
   \<and> domain (the (NewResourceConfig exampleHostnames True
        [WithResourceRotationStrategy DefaultRotationStrategy,
         WithResourceSelectStrategy DefaultSelectStrategy])) = []
   \<and> normalizeDomain exampleHostnames ''example.com.'' = ''example.com.''
   \<and> CompareDomain exampleHostnames
        (the (NewResourceConfig exampleHostnames True
          [WithResourceRotationStrategy DefaultRotationStrategy,
           WithResourceSelectStrategy DefaultSelectStrategy])) ''example.com.''"
  by (simp add: NewResourceConfig_def CompareDomain_def normalizeDomain_def getDomainFromURL_def
      exampleHostnames_def trimDomain_def TrimPrefix_def HasPrefix_def Trim_def ToLower_def
      toLowerByte_def HasSuffix_def)

end
